theory Spec2Isabelle
  imports Main "HOL-Library.Word" "HOL-Library.AList"
begin

section \<open>The Cloudflare worker of PMTiles: serverless/cloudflare/src/index.ts\<close>

text \<open>
  The worker is one request handler, \<open>fetch\<close>, with three helpers
  (\<open>nativeDecompress\<close>, \<open>R2Source.getBytes\<close>, \<open>checkFonts\<close>). Everything it does
  besides computing a response is a call to a collaborator: the edge cache, the R2 bucket,
  the D1 database and the archive reader. The model returns, next to the result, the list
  of these calls in the order the handler makes them. A thrown exception is the left
  summand of the result.
\<close>

subsection \<open>Data\<close>

type_synonym bytes = "8 word list"

text \<open>
  Modelled from the spec: the enum \<open>TileType\<close> is declared in js/index, which is not part
  of the sources at hand. The archive header's tile type is one of
  Mvt, Png, Jpeg, Webp, Avif, Unknown.
\<close>

datatype TileType = Unknown | Mvt | Png | Jpeg | Webp | Avif

text \<open>
  Modelled from the spec: the enum \<open>Compression\<close> is declared in js/index as well. The
  handler names three of its tags (\<open>Compression.None\<close>, \<open>Compression.Unknown\<close>,
  \<open>Compression.Gzip\<close>); \<open>OtherCompression n\<close> stands for every further tag.
\<close>

datatype Compression = CompressionUnknown | CompressionNone | Gzip | OtherCompression nat

text \<open>The exceptions the handler throws, catches or lets pass.\<close>

datatype exn =
    KeyNotFoundError string
  | EtagMismatch
  | Error string
  | TypeError string

text \<open>
  A \<open>Headers\<close> object is an association list; \<open>set\<close> replaces the value of a name that is
  present and appends otherwise. (The platform compares header names without regard to
  case; the handler writes every name in one spelling.)
\<close>

type_synonym Headers = "(string \<times> string) list"

definition headers_set :: "string \<Rightarrow> string \<Rightarrow> Headers \<Rightarrow> Headers" where
  "headers_set k v hs = AList.update k v hs"

definition headers_get :: "Headers \<Rightarrow> string \<Rightarrow> string option" where
  "headers_get hs k = map_of hs k"

text \<open>A response body: \<open>undefined\<close>, a string, or an \<open>ArrayBuffer\<close>.\<close>

datatype Body = BodyUndefined | BodyString string | BodyBuffer bytes

record Response =
  status :: nat
  headers :: Headers
  body :: Body

text \<open>
  \<open>new Response(body, {headers, status})\<close>. The constructor of the platform adds the
  content type of a string body when the given headers have none; a buffer and an absent
  body have no type of their own.
\<close>

definition new_Response :: "Body \<Rightarrow> Headers \<Rightarrow> nat \<Rightarrow> Response" where
  "new_Response b hs st =
     \<lparr> status = st,
       headers = (case b of
                    BodyString _ \<Rightarrow>
                      (if headers_get hs ''Content-Type'' = None
                       then hs @ [(''Content-Type'', ''text/plain;charset=UTF-8'')]
                       else hs)
                  | _ \<Rightarrow> hs),
       body = b \<rparr>"

text \<open>What R2 hands back: the object's metadata, with or without its body.\<close>

record R2Object =
  r2_etag :: string
  r2_cacheControl :: "string option"
  r2_cacheExpiry :: "string option"

datatype R2GetResult = R2Null | R2ObjectOnly R2Object | R2ObjectBody R2Object bytes

text \<open>
  The bucket. \<open>get\<close> is the plain read (the object with its body, or null);
  \<open>get_range\<close> is the read with \<open>range\<close> and \<open>onlyIf.etagMatches\<close>, which may also
  return the object without a body.
\<close>

record R2Bucket =
  get :: "string \<Rightarrow> (R2Object \<times> bytes) option"
  get_range :: "string \<Rightarrow> nat \<Rightarrow> nat \<Rightarrow> string option \<Rightarrow> R2GetResult"

text \<open>
  \<open>interface Env\<close>. The D1 binding stands for what the listing route makes of it: the
  text \<open>JSON.stringify(await getAvailablePmTilesFromD1(env.OCAP2_DATA))\<close>, or the
  exception of the query or of \<open>JSON.parse\<close> on a row.
\<close>

record Env =
  ALLOWED_ORIGINS :: "string option"
  BUCKET :: R2Bucket
  OCAP2_DATA :: "exn + string"
  CACHE_CONTROL :: "string option"
  PMTILES_PATH :: "string option"
  PUBLIC_HOSTNAME :: "string option"

record RangeResponse =
  data :: bytes
  etag :: string
  cacheControl :: "string option"
  expires :: "string option"

text \<open>The calls to collaborators, in the order they are made.\<close>

datatype event =
    D1_all
  | Cache_match string
  | Cache_put string Response
  | Bucket_get string
  | PMTiles_getHeader string
  | PMTiles_getTileJson string string
  | PMTiles_getZxy string nat nat nat

type_synonym 'a outcome = "(exn + 'a) \<times> event list"

subsection \<open>nativeDecompress\<close>

text \<open>
  The inflate of the platform (\<open>DecompressionStream("gzip")\<close>) is a parameter; it fails
  on input that is not gzip.
\<close>

definition nativeDecompress ::
  "(bytes \<Rightarrow> exn + bytes) \<Rightarrow> bytes \<Rightarrow> Compression \<Rightarrow> exn + bytes" where
  "nativeDecompress gunzip buf compression =
     (if compression = CompressionNone \<or> compression = CompressionUnknown then Inr buf
      else if compression = Gzip then gunzip buf
      else Inl (Error ''Compression method not supported''))"

subsection \<open>R2Source.getBytes\<close>

text \<open>
  \<open>pmtiles_path\<close> comes from shared/index and is a parameter: it builds the object key
  from the archive name and the configured path.
\<close>

definition getBytes ::
  "(string \<Rightarrow> string option \<Rightarrow> string) \<Rightarrow> Env \<Rightarrow> string \<Rightarrow> nat \<Rightarrow> nat \<Rightarrow> string option
     \<Rightarrow> RangeResponse outcome" where
  "getBytes pmtiles_path env archiveName offset len etg =
     (let key = pmtiles_path archiveName (PMTILES_PATH env);
          resp = get_range (BUCKET env) key offset len etg
      in (case resp of
            R2Null \<Rightarrow> Inl (KeyNotFoundError ''Archive not found'')
          | R2ObjectOnly obj \<Rightarrow> Inl EtagMismatch
          | R2ObjectBody obj a \<Rightarrow>
              Inr \<lparr> data = a, etag = r2_etag obj,
                    cacheControl = r2_cacheControl obj, expires = r2_cacheExpiry obj \<rparr>,
          [Bucket_get key]))"

subsection \<open>Strings\<close>

text \<open>\<open>String.prototype.split\<close> with a separator of one character: never an empty list.\<close>

fun js_split :: "char \<Rightarrow> string \<Rightarrow> string list" where
  "js_split sep [] = [[]]"
| "js_split sep (c # cs) =
     (if c = sep then [] # js_split sep cs
      else (case js_split sep cs of
              [] \<Rightarrow> [[c]]
            | w # ws \<Rightarrow> (c # w) # ws))"

text \<open>\<open>s.replace(/%20/g, ' ')\<close>: every occurrence, left to right.\<close>

fun replace_pct20 :: "string \<Rightarrow> string" where
  "replace_pct20 [] = []"
| "replace_pct20 (c # cs) =
     (if take 3 (c # cs) = ''%20'' then CHR '' '' # replace_pct20 (drop 2 cs)
      else c # replace_pct20 cs)"

definition startsWith :: "string \<Rightarrow> string \<Rightarrow> bool" where
  "startsWith s p = (take (length p) s = p)"

text \<open>\<open>toUpperCase\<close> on a method name, which is a token of ASCII characters.\<close>

definition toUpperCase_char :: "char \<Rightarrow> char" where
  "toUpperCase_char c =
     (case map_of (zip ''abcdefghijklmnopqrstuvwxyz'' ''ABCDEFGHIJKLMNOPQRSTUVWXYZ'') c of
        Some u \<Rightarrow> u
      | None \<Rightarrow> c)"

definition toUpperCase :: "string \<Rightarrow> string" where
  "toUpperCase s = map toUpperCase_char s"

text \<open>\<open>xs[i]\<close>: \<open>undefined\<close> beyond the end.\<close>

definition at_index :: "'a list \<Rightarrow> nat \<Rightarrow> 'a option" where
  "at_index xs i = (if i < length xs then Some (xs ! i) else None)"

subsection \<open>The request and the collaborators of fetch\<close>

text \<open>
  A request, with the components \<open>new URL(request.url)\<close> gives (\<open>pathname\<close>,
  \<open>hostname\<close>), the method (\<open>request.method\<close>) and the value of \<open>request.headers.get("Origin")\<close>.
\<close>

record Request =
  url :: string
  pathname :: string
  hostname :: string
  http_method :: string
  Origin :: "string option"

text \<open>The result of \<open>tile_path\<close> (shared/index): \<open>{ok, name, tile, ext}\<close>.\<close>

record TilePath =
  ok :: bool
  name :: string
  tile :: "(nat \<times> nat \<times> nat) option"
  ext :: string

text \<open>The part of the archive header the handler reads.\<close>

record Header =
  minZoom :: nat
  maxZoom :: nat
  tileType :: TileType

text \<open>
  The archive reader \<open>new PMTiles(source, CACHE, nativeDecompress)\<close> of js/index, as the
  handler sees it: three calls, each of which returns or throws. \<open>getTileJson\<close> gives
  the text \<open>JSON.stringify\<close> makes of its result; \<open>getZxy\<close> gives the tile's bytes or
  \<open>undefined\<close>.
\<close>

record PMTiles =
  getHeader :: "exn + Header"
  getTileJson :: "string \<Rightarrow> exn + string"
  getZxy :: "nat \<Rightarrow> nat \<Rightarrow> nat \<Rightarrow> exn + bytes option"

text \<open>
  What the host and the imported modules provide: the edge cache \<open>caches.default\<close> (its
  content when the request arrives), \<open>tile_path\<close>, and the reader of the archive of a
  given name.
\<close>

record Host =
  caches_default :: "string \<Rightarrow> Response option"
  tile_path :: "string \<Rightarrow> TilePath"
  new_PMTiles :: "string \<Rightarrow> PMTiles"

definition after :: "event list \<Rightarrow> 'a outcome \<Rightarrow> 'a outcome" where
  "after evs r = (fst r, evs @ snd r)"

definition returns :: "'a \<times> event list \<Rightarrow> 'a outcome" where
  "returns r = (Inr (fst r), snd r)"

subsection \<open>fetch: the closure cacheableResponse\<close>

definition cacheableResponse ::
  "Env \<Rightarrow> Request \<Rightarrow> string \<Rightarrow> Body \<Rightarrow> Headers \<Rightarrow> nat \<Rightarrow> Response \<times> event list" where
  "cacheableResponse env request allowedOrigin b cacheableHeaders st =
     (let cacheableHeaders =
            headers_set ''Cache-Control''
              (case CACHE_CONTROL env of
                 None \<Rightarrow> ''public, max-age=86400''
               | Some c \<Rightarrow> if c = [] then ''public, max-age=86400'' else c)
              cacheableHeaders;
          cacheable = new_Response b cacheableHeaders st;
          respHeaders = cacheableHeaders;
          respHeaders =
            (if allowedOrigin \<noteq> []
             then headers_set ''Access-Control-Allow-Origin'' allowedOrigin respHeaders
             else respHeaders);
          respHeaders = headers_set ''Vary'' ''Origin'' respHeaders
      in (new_Response b respHeaders st, [Cache_put (url request) cacheable]))"

subsection \<open>checkFonts\<close>

fun checkFonts_loop ::
  "Env \<Rightarrow> string list \<Rightarrow> string \<Rightarrow> Headers
     \<Rightarrow> (Body \<Rightarrow> Headers \<Rightarrow> nat \<Rightarrow> Response \<times> event list) \<Rightarrow> Response outcome" where
  "checkFonts_loop env [] part2 cacheableHeaders cacheableResp =
     (Inr (new_Response (BodyString ''Font not found'') [] 404), [])"
| "checkFonts_loop env (font # fonts) part2 cacheableHeaders cacheableResp =
     (let newObjectKey = ''fonts/'' @ font @ ''/'' @ part2
      in after [Bucket_get newObjectKey]
           (case get (BUCKET env) newObjectKey of
              None \<Rightarrow> checkFonts_loop env fonts part2 cacheableHeaders cacheableResp
            | Some (obj, a) \<Rightarrow>
                returns (cacheableResp (BodyBuffer a)
                  (headers_set ''Content-Type'' ''application/x-protobuf'' cacheableHeaders)
                  200)))"

text \<open>
  \<open>parts[1].split(',')\<close> throws a TypeError when the key has no second segment; a
  missing third segment is printed as \<open>undefined\<close> by the template string.
\<close>

definition checkFonts ::
  "Env \<Rightarrow> string \<Rightarrow> Headers \<Rightarrow> (Body \<Rightarrow> Headers \<Rightarrow> nat \<Rightarrow> Response \<times> event list)
     \<Rightarrow> Response outcome" where
  "checkFonts env objectKey cacheableHeaders cacheableResp =
     (let newKey = replace_pct20 objectKey;
          parts = js_split CHR ''/'' newKey
      in (case at_index parts 1 of
            None \<Rightarrow> (Inl (TypeError ''Cannot read properties of undefined''), [])
          | Some part1 \<Rightarrow>
              checkFonts_loop env (js_split CHR '','' part1)
                (case at_index parts 2 of None \<Rightarrow> ''undefined'' | Some part2 \<Rightarrow> part2)
                cacheableHeaders cacheableResp))"

subsection \<open>fetch: the checks on a tile request\<close>

text \<open>
  The loop over the table of extensions. It gives the second component of the pair at
  which the handler returns the 400, and \<open>None\<close> when it runs to its end.
\<close>

definition extension_table :: "(TileType \<times> string) list" where
  "extension_table =
     [(Mvt, ''mvt''), (Png, ''png''), (Jpeg, ''jpg''), (Webp, ''webp''), (Avif, ''avif'')]"

fun extension_loop :: "TileType \<Rightarrow> string \<Rightarrow> (TileType \<times> string) list \<Rightarrow> string option" where
  "extension_loop tt e [] = None"
| "extension_loop tt e (pair # pairs) =
     (if tt = fst pair \<and> e \<noteq> snd pair then
        (if tt = Mvt \<and> e = ''pbf'' then extension_loop tt e pairs
         else Some (snd pair))
      else extension_loop tt e pairs)"

text \<open>The \<open>switch\<close> on the tile type after the tile has been read.\<close>

definition content_type_switch :: "TileType \<Rightarrow> Headers \<Rightarrow> Headers" where
  "content_type_switch tt cacheableHeaders =
     (case tt of
        Mvt \<Rightarrow> headers_set ''Content-Type'' ''application/x-protobuf'' cacheableHeaders
      | Png \<Rightarrow> headers_set ''Content-Type'' ''image/png'' cacheableHeaders
      | Jpeg \<Rightarrow> headers_set ''Content-Type'' ''image/jpeg'' cacheableHeaders
      | Webp \<Rightarrow> headers_set ''Content-Type'' ''image/webp'' cacheableHeaders
      | _ \<Rightarrow> cacheableHeaders)"

text \<open>
  The \<open>catch\<close> clause, at the headers as they are when the exception is thrown and
  after the calls made so far.
\<close>

definition fetch_catch ::
  "(Body \<Rightarrow> Headers \<Rightarrow> nat \<Rightarrow> Response \<times> event list) \<Rightarrow> Headers \<Rightarrow> exn \<Rightarrow> Response outcome" where
  "fetch_catch cacheableResp cacheableHeaders e =
     (case e of
        KeyNotFoundError m \<Rightarrow>
          returns (cacheableResp (BodyString ''Archive not found'') cacheableHeaders 404)
      | _ \<Rightarrow> (Inl e, []))"

text \<open>The \<open>try\<close> block: header, then TileJSON or the tile.\<close>

definition fetch_try ::
  "Host \<Rightarrow> Request \<Rightarrow> Env \<Rightarrow> TilePath
     \<Rightarrow> (Body \<Rightarrow> Headers \<Rightarrow> nat \<Rightarrow> Response \<times> event list) \<Rightarrow> Response outcome" where
  "fetch_try host request env tp cacheableResp =
     (let p = new_PMTiles host (name tp);
          cacheableHeaders = []
      in after [PMTiles_getHeader (name tp)]
        (case getHeader p of
           Inl e \<Rightarrow> fetch_catch cacheableResp cacheableHeaders e
         | Inr pHeader \<Rightarrow>
            (case tile tp of
               None \<Rightarrow>
                 (let cacheableHeaders =
                        headers_set ''Content-Type'' ''application/json'' cacheableHeaders;
                      base = ''https://'' @
                        (case PUBLIC_HOSTNAME env of
                           None \<Rightarrow> hostname request
                         | Some h \<Rightarrow> if h = [] then hostname request else h)
                        @ ''/'' @ name tp
                  in after [PMTiles_getTileJson (name tp) base]
                    (case getTileJson p base of
                       Inl e \<Rightarrow> fetch_catch cacheableResp cacheableHeaders e
                     | Inr t \<Rightarrow> returns (cacheableResp (BodyString t) cacheableHeaders 200)))
             | Some (z, x, y) \<Rightarrow>
                 if z < minZoom pHeader \<or> z > maxZoom pHeader then
                   returns (cacheableResp BodyUndefined cacheableHeaders 404)
                 else
                   (case extension_loop (tileType pHeader) (ext tp) extension_table of
                      Some pair1 \<Rightarrow>
                        returns (cacheableResp
                          (BodyString (''Bad request: requested .'' @ ext tp
                             @ '' but archive has type .'' @ pair1))
                          cacheableHeaders 400)
                    | None \<Rightarrow>
                        after [PMTiles_getZxy (name tp) z x y]
                          (case getZxy p z x y of
                             Inl e \<Rightarrow> fetch_catch cacheableResp cacheableHeaders e
                           | Inr tiledata \<Rightarrow>
                              (let cacheableHeaders =
                                     content_type_switch (tileType pHeader) cacheableHeaders
                               in (case tiledata of
                                     Some d \<Rightarrow>
                                       returns (cacheableResp (BodyBuffer d) cacheableHeaders 200)
                                   | None \<Rightarrow>
                                       returns (cacheableResp BodyUndefined cacheableHeaders 204))))))))"

subsection \<open>fetch\<close>

text \<open>The test \<open>url.pathname.match(/^\/list\/?$/) !== null\<close>.\<close>

definition is_list_path :: "string \<Rightarrow> bool" where
  "is_list_path path = (path = ''/list'' \<or> path = ''/list/'')"

text \<open>The loop over \<open>env.ALLOWED_ORIGINS.split(",")\<close>: the last match stays.\<close>

definition fetch_allowedOrigin :: "Env \<Rightarrow> Request \<Rightarrow> string" where
  "fetch_allowedOrigin env request =
     (case ALLOWED_ORIGINS env of
        None \<Rightarrow> []
      | Some origins \<Rightarrow>
          foldl (\<lambda>allowedOrigin orig.
                   if Some orig = Origin request \<or> orig = ''*'' then orig else allowedOrigin)
            [] (js_split CHR '','' origins))"

text \<open>
  The answer from the cache. \<open>cached.body\<close> is a stream, for which the constructor adds
  no header.
\<close>

definition fetch_cached :: "string \<Rightarrow> Response \<Rightarrow> Response" where
  "fetch_cached allowedOrigin cached =
     (let respHeaders = headers cached;
          respHeaders =
            (if allowedOrigin \<noteq> []
             then headers_set ''Access-Control-Allow-Origin'' allowedOrigin respHeaders
             else respHeaders);
          respHeaders = headers_set ''Vary'' ''Origin'' respHeaders
      in \<lparr> status = status cached, headers = respHeaders, body = body cached \<rparr>)"

text \<open>The route of the paths that start with \<open>/styles\<close>.\<close>

definition fetch_styles ::
  "Env \<Rightarrow> string \<Rightarrow> Headers \<Rightarrow> (Body \<Rightarrow> Headers \<Rightarrow> nat \<Rightarrow> Response \<times> event list)
     \<Rightarrow> Response outcome" where
  "fetch_styles env objectKey cacheableHeaders cacheableResp =
     after [Bucket_get objectKey]
       (case get (BUCKET env) objectKey of
          None \<Rightarrow> returns (cacheableResp (BodyString ''File not found'') cacheableHeaders 404)
        | Some (obj, a) \<Rightarrow>
            (let objectExtension = last (js_split CHR ''.'' objectKey);
                 contentType =
                   (if objectExtension = ''png'' then ''image/png''
                    else if objectExtension = ''json'' then ''application/json''
                    else ''application/octet-stream'');
                 cacheableHeaders = headers_set ''Content-Type'' contentType cacheableHeaders
             in returns (cacheableResp (BodyBuffer a) cacheableHeaders 200)))"

definition fetch :: "Host \<Rightarrow> Request \<Rightarrow> Env \<Rightarrow> Response outcome" where
  "fetch host request env =
     (if is_list_path (pathname request) then
        after [D1_all]
          (case OCAP2_DATA env of
             Inl e \<Rightarrow> (Inl e, [])
           | Inr pmtiles \<Rightarrow>
               (Inr (new_Response (BodyString pmtiles)
                      [(''Content-Type'', ''application/json''),
                       (''Access-Control-Allow-Origin'', ''*''),
                       (''Cache-Control'', ''public, max-age=86400'')]
                      200), []))
      else if toUpperCase (http_method request) = ''POST'' then
        (Inr (new_Response BodyUndefined [] 405), [])
      else
        (let tp = tile_path host (pathname request);
             allowedOrigin = fetch_allowedOrigin env request
         in after [Cache_match (url request)]
           (case caches_default host (url request) of
              Some cached \<Rightarrow> (Inr (fetch_cached allowedOrigin cached), [])
            | None \<Rightarrow>
               (let cacheableResp = cacheableResponse env request allowedOrigin;
                    cacheableHeaders = []
                in if http_method request \<in> set [''GET'', ''HEAD'', ''OPTIONS'']
                      \<and> startsWith (pathname request) ''/fonts'' then
                     checkFonts env (drop 1 (pathname request)) cacheableHeaders cacheableResp
                   else if http_method request \<in> set [''GET'', ''HEAD'', ''OPTIONS'']
                      \<and> startsWith (pathname request) ''/styles'' then
                     fetch_styles env (drop 1 (pathname request)) cacheableHeaders cacheableResp
                   else if \<not> ok tp then
                     (Inr (new_Response (BodyString ''Invalid URL'') [] 404), [])
                   else fetch_try host request env tp cacheableResp))))"

subsection \<open>The routes of fetch\<close>

text \<open>
  A request that passes the listing test, the POST test and the two static routes, and
  whose path \<open>tile_path\<close> accepts: on a cache miss it reaches the \<open>try\<close> block.
\<close>

definition routed_to_archive :: "Host \<Rightarrow> Request \<Rightarrow> bool" where
  "routed_to_archive host request =
     (\<not> is_list_path (pathname request)
      \<and> toUpperCase (http_method request) \<noteq> ''POST''
      \<and> \<not> (http_method request \<in> set [''GET'', ''HEAD'', ''OPTIONS'']
            \<and> (startsWith (pathname request) ''/fonts''
                \<or> startsWith (pathname request) ''/styles''))
      \<and> ok (tile_path host (pathname request)))"

text \<open>
  What holds of an outcome that went through \<open>cacheableResponse\<close>: whatever was put into
  the cache was put under the request's URL, has the status and body of the response and
  neither CORS nor Vary header, while the response has \<open>Vary: Origin\<close> and the allowed
  origin, if there is one.
\<close>

definition cors_at_serve :: "Request \<Rightarrow> string \<Rightarrow> Response outcome \<Rightarrow> bool" where
  "cors_at_serve request ao out =
     (\<forall>r u c. fst out = Inr r \<and> Cache_put u c \<in> set (snd out) \<longrightarrow>
        u = url request \<and> status c = status r \<and> body c = body r
        \<and> headers_get (headers c) ''Access-Control-Allow-Origin'' = None
        \<and> headers_get (headers c) ''Vary'' = None
        \<and> headers_get (headers r) ''Vary'' = Some ''Origin''
        \<and> headers_get (headers r) ''Access-Control-Allow-Origin''
            = (if ao = [] then None else Some ao))"

section \<open>Example configurations\<close>

definition ex_range_bucket :: R2Bucket where
  "ex_range_bucket =
     \<lparr> get = (\<lambda>k. None),
       get_range = (\<lambda>k off n e.
         if k = ''tiles/world.pmtiles'' then
           (if e = None \<or> e = Some ''v1''
            then R2ObjectBody \<lparr> r2_etag = ''v1'', r2_cacheControl = None, r2_cacheExpiry = None \<rparr>
                   (take n (drop off [80, 77, 84, 105, 108, 101, 115, 3]))
            else R2ObjectOnly \<lparr> r2_etag = ''v1'', r2_cacheControl = None, r2_cacheExpiry = None \<rparr>)
         else R2Null) \<rparr>"

definition ex_pmtiles_path :: "string \<Rightarrow> string option \<Rightarrow> string" where
  "ex_pmtiles_path nm setting = ''tiles/'' @ nm @ ''.pmtiles''"

definition ex_range_env :: Env where
  "ex_range_env =
     \<lparr> ALLOWED_ORIGINS = None, BUCKET = ex_range_bucket, OCAP2_DATA = Inr ''{}'',
       CACHE_CONTROL = None, PMTILES_PATH = None, PUBLIC_HOSTNAME = None \<rparr>"

text \<open>
  A host with an empty edge cache, three archives (vector tiles, tiles of unknown type,
  AVIF tiles), and a bucket that holds the glyphs of one font.
\<close>

definition ex_tile_path :: "string \<Rightarrow> TilePath" where
  "ex_tile_path path =
     (if path = ''/myarchive/5/3/2.mvt'' then
        \<lparr> ok = True, name = ''myarchive'', tile = Some (5, 3, 2), ext = ''mvt'' \<rparr>
      else if path = ''/myarchive/5/3/2.png'' then
        \<lparr> ok = True, name = ''myarchive'', tile = Some (5, 3, 2), ext = ''png'' \<rparr>
      else if path = ''/myarchive/5/3/3.pbf'' then
        \<lparr> ok = True, name = ''myarchive'', tile = Some (5, 3, 3), ext = ''pbf'' \<rparr>
      else if path = ''/myarchive/12/3/2.mvt'' then
        \<lparr> ok = True, name = ''myarchive'', tile = Some (12, 3, 2), ext = ''mvt'' \<rparr>
      else if path = ''/scans/5/3/2.png'' then
        \<lparr> ok = True, name = ''scans'', tile = Some (5, 3, 2), ext = ''png'' \<rparr>
      else if path = ''/photos/5/3/2.avif'' then
        \<lparr> ok = True, name = ''photos'', tile = Some (5, 3, 2), ext = ''avif'' \<rparr>
      else if path = ''/myarchive'' then
        \<lparr> ok = True, name = ''myarchive'', tile = None, ext = ''json'' \<rparr>
      else \<lparr> ok = False, name = [], tile = Some (0, 0, 0), ext = [] \<rparr>)"

definition ex_reader :: "TileType \<Rightarrow> PMTiles" where
  "ex_reader tt =
     \<lparr> getHeader = Inr \<lparr> minZoom = 0, maxZoom = 10, tileType = tt \<rparr>,
       getTileJson = (\<lambda>base. Inr ''{}''),
       getZxy = (\<lambda>z x y. Inr (if (z, x, y) = (5, 3, 2) then Some [26, 2, 120, 2] else None)) \<rparr>"

definition ex_new_PMTiles :: "string \<Rightarrow> PMTiles" where
  "ex_new_PMTiles nm =
     (if nm = ''myarchive'' then ex_reader Mvt
      else if nm = ''scans'' then ex_reader Unknown
      else if nm = ''photos'' then ex_reader Avif
      else \<lparr> getHeader = Inl (KeyNotFoundError ''Archive not found''),
             getTileJson = (\<lambda>base. Inl (KeyNotFoundError ''Archive not found'')),
             getZxy = (\<lambda>z x y. Inl (KeyNotFoundError ''Archive not found'')) \<rparr>)"

definition ex_host :: Host where
  "ex_host =
     \<lparr> caches_default = (\<lambda>u. None), tile_path = ex_tile_path, new_PMTiles = ex_new_PMTiles \<rparr>"

definition ex_request :: "string \<Rightarrow> string \<Rightarrow> Request" where
  "ex_request m path =
     \<lparr> url = ''https://tiles.example'' @ path, pathname = path, hostname = ''tiles.example'',
       http_method = m, Origin = Some ''https://a.example'' \<rparr>"

definition ex_fonts_bucket :: R2Bucket where
  "ex_fonts_bucket =
     \<lparr> get = (\<lambda>k. if k = ''fonts/B/0-255.pbf''
                   then Some (\<lparr> r2_etag = ''f1'', r2_cacheControl = None, r2_cacheExpiry = None \<rparr>,
                              [10, 1, 66])
                   else None),
       get_range = (\<lambda>k off n e. R2Null) \<rparr>"

definition ex_env :: Env where
  "ex_env =
     \<lparr> ALLOWED_ORIGINS = Some ''https://a.example,https://b.example'',
       BUCKET = ex_fonts_bucket, OCAP2_DATA = Inr ''{}'',
       CACHE_CONTROL = None, PMTILES_PATH = None, PUBLIC_HOSTNAME = None \<rparr>"

text \<open>The same host after the response to the first tile request has been stored in its edge cache.\<close>

definition ex_cached_host :: Host where
  "ex_cached_host =
     \<lparr> caches_default = (\<lambda>u.
         if u = ''https://tiles.example/myarchive/5/3/2.mvt'' then
           Some \<lparr> status = 200,
                  headers = [(''Content-Type'', ''application/x-protobuf''),
                             (''Cache-Control'', ''public, max-age=86400'')],
                  body = BodyBuffer [26, 2, 120, 2] \<rparr>
         else None),
       tile_path = ex_tile_path, new_PMTiles = ex_new_PMTiles \<rparr>"

section \<open>Auxiliary facts\<close>

subsection \<open>Unfolding\<close>

lemmas ex_defs = ex_tile_path_def ex_reader_def ex_new_PMTiles_def ex_host_def ex_request_def
  ex_cached_host_def
  ex_fonts_bucket_def ex_env_def

lemmas fetch_defs = fetch_def fetch_try_def fetch_catch_def fetch_cached_def fetch_styles_def
  checkFonts_def cacheableResponse_def fetch_allowedOrigin_def is_list_path_def startsWith_def
  toUpperCase_def toUpperCase_char_def extension_table_def content_type_switch_def
  new_Response_def headers_set_def headers_get_def after_def returns_def at_index_def

subsection \<open>Headers and responses\<close>

lemma headers_get_set:
  "headers_get (headers_set k v hs) k' = (if k' = k then Some v else headers_get hs k')"
  by (simp add: headers_get_def headers_set_def update_conv')

lemma headers_get_Nil: "headers_get [] k = None"
  by (simp add: headers_get_def)

lemma headers_get_new_Response:
  "headers_get (headers (new_Response b hs st)) k =
     (case headers_get hs k of
        Some v \<Rightarrow> Some v
      | None \<Rightarrow> (case b of
                  BodyString s \<Rightarrow>
                    if k = ''Content-Type'' then Some ''text/plain;charset=UTF-8'' else None
                | _ \<Rightarrow> None))"
  by (auto simp: new_Response_def headers_get_def map_add_def split: Body.splits option.splits)

lemma status_new_Response: "status (new_Response b hs st) = st"
  by (simp add: new_Response_def)

lemma body_new_Response: "body (new_Response b hs st) = b"
  by (simp add: new_Response_def)

lemma snd_cacheableResponse:
  "snd (cacheableResponse env request ao b hs st) =
     [Cache_put (url request)
        (new_Response b
           (headers_set ''Cache-Control''
              (case CACHE_CONTROL env of
                 None \<Rightarrow> ''public, max-age=86400''
               | Some c \<Rightarrow> if c = [] then ''public, max-age=86400'' else c) hs) st)]"
  by (simp add: cacheableResponse_def Let_def)

lemma status_cacheableResponse:
  "status (fst (cacheableResponse env request ao b hs st)) = st"
  by (simp add: cacheableResponse_def Let_def status_new_Response)

lemma body_cacheableResponse:
  "body (fst (cacheableResponse env request ao b hs st)) = b"
  by (simp add: cacheableResponse_def Let_def body_new_Response)

lemma headers_cacheableResponse:
  "headers_get (headers (fst (cacheableResponse env request ao b hs st))) k =
     (if k = ''Vary'' then Some ''Origin''
      else if k = ''Access-Control-Allow-Origin'' \<and> ao \<noteq> [] then Some ao
      else if k = ''Cache-Control'' then
        Some (case CACHE_CONTROL env of
                None \<Rightarrow> ''public, max-age=86400''
              | Some c \<Rightarrow> if c = [] then ''public, max-age=86400'' else c)
      else headers_get (headers (new_Response b hs st)) k)"
  by (simp add: cacheableResponse_def Let_def headers_get_new_Response headers_get_set)

subsection \<open>The tile route\<close>

lemma fetch_routed:
  assumes "routed_to_archive host request" and "caches_default host (url request) = None"
  shows "fetch host request env =
           after [Cache_match (url request)]
             (fetch_try host request env (tile_path host (pathname request))
                (cacheableResponse env request (fetch_allowedOrigin env request)))"
  using assms by (auto simp: routed_to_archive_def fetch_def Let_def)

lemma fetch_routed_hit:
  assumes "routed_to_archive host request" and "caches_default host (url request) = Some cached"
  shows "fetch host request env =
           (Inr (fetch_cached (fetch_allowedOrigin env request) cached), [Cache_match (url request)])"
  using assms by (auto simp: routed_to_archive_def fetch_def Let_def after_def)

lemma extension_loop_table:
  "extension_loop tt e extension_table =
     (case map_of extension_table tt of
        None \<Rightarrow> None
      | Some canon \<Rightarrow> if e = canon \<or> (tt = Mvt \<and> e = ''pbf'') then None else Some canon)"
  by (cases tt) (simp_all add: extension_table_def)

lemma fetch_try_tile:
  assumes "tile tp = Some (z, x, y)"
    and "getHeader (new_PMTiles host (name tp)) = Inr pHeader"
    and "minZoom pHeader \<le> z" and "z \<le> maxZoom pHeader"
    and "extension_loop (tileType pHeader) (ext tp) extension_table = None"
    and "getZxy (new_PMTiles host (name tp)) z x y = Inr tiledata"
  shows "fetch_try host request env tp cr =
           (Inr (fst (cr (case tiledata of Some d \<Rightarrow> BodyBuffer d | None \<Rightarrow> BodyUndefined)
                        (content_type_switch (tileType pHeader) [])
                        (case tiledata of Some d \<Rightarrow> 200 | None \<Rightarrow> 204))),
            [PMTiles_getHeader (name tp), PMTiles_getZxy (name tp) z x y]
            @ snd (cr (case tiledata of Some d \<Rightarrow> BodyBuffer d | None \<Rightarrow> BodyUndefined)
                        (content_type_switch (tileType pHeader) [])
                        (case tiledata of Some d \<Rightarrow> 200 | None \<Rightarrow> 204)))"
  using assms
  by (simp add: fetch_try_def Let_def after_def returns_def split: option.splits)

lemma fetch_try_throws:
  assumes "tile tp = Some (z, x, y)"
    and "getHeader (new_PMTiles host (name tp)) = Inr pHeader"
    and "minZoom pHeader \<le> z" and "z \<le> maxZoom pHeader"
    and "extension_loop (tileType pHeader) (ext tp) extension_table = None"
  shows "PMTiles_getZxy (name tp) z x y \<in> set (snd (fetch_try host request env tp cr))"
  using assms
  by (simp add: fetch_try_def Let_def after_def returns_def split: option.splits sum.splits)

lemma fetch_try_mismatch:
  assumes "tile tp = Some (z, x, y)"
    and "getHeader (new_PMTiles host (name tp)) = Inr pHeader"
    and "minZoom pHeader \<le> z" and "z \<le> maxZoom pHeader"
    and "extension_loop (tileType pHeader) (ext tp) extension_table = Some canon"
  shows "fetch_try host request env tp cr =
           (Inr (fst (cr (BodyString (''Bad request: requested .'' @ ext tp
                             @ '' but archive has type .'' @ canon)) [] 400)),
            [PMTiles_getHeader (name tp)]
            @ snd (cr (BodyString (''Bad request: requested .'' @ ext tp
                             @ '' but archive has type .'' @ canon)) [] 400))"
  using assms
  by (simp add: fetch_try_def Let_def after_def returns_def)

subsection \<open>The allowed origin\<close>

lemma foldl_last_match:
  "foldl (\<lambda>acc x. if P x then x else acc) a xs =
     (case filter P xs of [] \<Rightarrow> a | m # ms \<Rightarrow> last (m # ms))"
  by (induction xs arbitrary: a) (auto split: list.splits)

lemma fetch_allowedOrigin_matches:
  assumes "fetch_allowedOrigin env request \<noteq> []"
  shows "\<exists>origins. ALLOWED_ORIGINS env = Some origins
           \<and> fetch_allowedOrigin env request \<in> set (js_split CHR '','' origins)
           \<and> (Origin request = Some (fetch_allowedOrigin env request)
               \<or> fetch_allowedOrigin env request = ''*'')"
proof (cases "ALLOWED_ORIGINS env")
  case None
  then show ?thesis using assms by (simp add: fetch_allowedOrigin_def)
next
  case (Some origins)
  let ?P = "\<lambda>orig. Some orig = Origin request \<or> orig = ''*''"
  let ?ms = "filter ?P (js_split CHR '','' origins)"
  have eq: "fetch_allowedOrigin env request = (case ?ms of [] \<Rightarrow> [] | m # ms \<Rightarrow> last (m # ms))"
    using Some by (simp add: fetch_allowedOrigin_def foldl_last_match)
  then have "?ms \<noteq> []" using assms by (auto split: list.splits)
  then have "fetch_allowedOrigin env request = last ?ms"
    using eq by (auto split: list.splits)
  moreover have "last ?ms \<in> set ?ms" using \<open>?ms \<noteq> []\<close> by (rule last_in_set)
  ultimately have "fetch_allowedOrigin env request \<in> set ?ms" by simp
  then show ?thesis using Some by auto
qed

subsection \<open>Responses that go through cacheableResponse\<close>

lemma cors_at_serve_cacheable:
  assumes "headers_get hs ''Access-Control-Allow-Origin'' = None"
    and "headers_get hs ''Vary'' = None"
  shows "cors_at_serve request ao (returns (cacheableResponse env request ao b hs st))"
  using assms
  by (simp add: cors_at_serve_def returns_def snd_cacheableResponse
      status_cacheableResponse body_cacheableResponse headers_cacheableResponse
      headers_get_new_Response headers_get_set status_new_Response body_new_Response
      split: Body.splits)

lemma cors_at_serve_direct: "cors_at_serve request ao (res, [])"
  by (simp add: cors_at_serve_def)

lemma cors_at_serve_after:
  assumes "cors_at_serve request ao out" and "\<forall>u c. Cache_put u c \<notin> set pre"
  shows "cors_at_serve request ao (after pre out)"
  unfolding cors_at_serve_def
proof (intro allI impI)
  fix r u c
  assume "fst (after pre out) = Inr r \<and> Cache_put u c \<in> set (snd (after pre out))"
  then have "fst out = Inr r \<and> Cache_put u c \<in> set (snd out)"
    using assms(2) by (simp add: after_def)
  then show "u = url request \<and> status c = status r \<and> body c = body r
        \<and> headers_get (headers c) ''Access-Control-Allow-Origin'' = None
        \<and> headers_get (headers c) ''Vary'' = None
        \<and> headers_get (headers r) ''Vary'' = Some ''Origin''
        \<and> headers_get (headers r) ''Access-Control-Allow-Origin''
            = (if ao = [] then None else Some ao)"
    using assms(1) unfolding cors_at_serve_def by blast
qed

lemma cors_at_serve_catch:
  assumes "headers_get hs ''Access-Control-Allow-Origin'' = None"
    and "headers_get hs ''Vary'' = None"
  shows "cors_at_serve request ao (fetch_catch (cacheableResponse env request ao) hs e)"
  using assms
  by (cases e) (simp_all add: fetch_catch_def cors_at_serve_cacheable cors_at_serve_direct)

lemma content_type_switch_other:
  "k \<noteq> ''Content-Type'' \<Longrightarrow> headers_get (content_type_switch tt hs) k = headers_get hs k"
  by (cases tt) (simp_all add: content_type_switch_def headers_get_set)

lemma cors_at_serve_try:
  "cors_at_serve request ao
     (fetch_try host request env tp (cacheableResponse env request ao))"
  unfolding fetch_try_def Let_def
  by (intro cors_at_serve_after)
     (simp_all add: cors_at_serve_after cors_at_serve_catch cors_at_serve_cacheable
        content_type_switch_other headers_get_set headers_get_Nil
        split: sum.split option.split prod.split)

lemma cors_at_serve_styles:
  "cors_at_serve request ao
     (fetch_styles env objectKey [] (cacheableResponse env request ao))"
  unfolding fetch_styles_def Let_def
  by (intro cors_at_serve_after)
     (simp_all add: cors_at_serve_cacheable headers_get_set headers_get_Nil
        split: option.split prod.split)

lemma cors_at_serve_fonts_loop:
  "cors_at_serve request ao
     (checkFonts_loop env fonts part2 [] (cacheableResponse env request ao))"
proof (induction fonts)
  case Nil
  show ?case by (simp add: cors_at_serve_direct)
next
  case (Cons font fonts)
  show ?case
    unfolding checkFonts_loop.simps Let_def
    by (intro cors_at_serve_after)
       (simp_all add: Cons.IH cors_at_serve_cacheable headers_get_set headers_get_Nil
          split: option.split prod.split)
qed

lemma cors_at_serve_fonts:
  "cors_at_serve request ao (checkFonts env objectKey [] (cacheableResponse env request ao))"
  by (simp add: checkFonts_def Let_def cors_at_serve_direct cors_at_serve_fonts_loop
      split: option.split)

lemma cors_at_serve_noput:
  "\<forall>u c. Cache_put u c \<notin> set evs \<Longrightarrow> cors_at_serve request ao (res, evs)"
  by (simp add: cors_at_serve_def)

lemma fetch_miss:
  assumes "\<not> is_list_path (pathname request)"
    and "toUpperCase (http_method request) \<noteq> ''POST''"
    and "caches_default host (url request) = None"
  shows "fetch host request env =
     after [Cache_match (url request)]
       (if http_method request \<in> set [''GET'', ''HEAD'', ''OPTIONS'']
            \<and> startsWith (pathname request) ''/fonts'' then
          checkFonts env (drop 1 (pathname request)) []
            (cacheableResponse env request (fetch_allowedOrigin env request))
        else if http_method request \<in> set [''GET'', ''HEAD'', ''OPTIONS'']
            \<and> startsWith (pathname request) ''/styles'' then
          fetch_styles env (drop 1 (pathname request)) []
            (cacheableResponse env request (fetch_allowedOrigin env request))
        else if \<not> ok (tile_path host (pathname request)) then
          (Inr (new_Response (BodyString ''Invalid URL'') [] 404), [])
        else fetch_try host request env (tile_path host (pathname request))
               (cacheableResponse env request (fetch_allowedOrigin env request)))"
  using assms by (simp add: fetch_def Let_def)

lemma fetch_hit:
  assumes "\<not> is_list_path (pathname request)"
    and "toUpperCase (http_method request) \<noteq> ''POST''"
    and "caches_default host (url request) = Some cached"
  shows "fetch host request env =
     (Inr (fetch_cached (fetch_allowedOrigin env request) cached), [Cache_match (url request)])"
  using assms by (simp add: fetch_def Let_def after_def)

lemma fetch_list:
  assumes "is_list_path (pathname request)"
  shows "snd (fetch host request env) = [D1_all]"
  using assms by (simp add: fetch_def after_def split: sum.split)

lemma fetch_post:
  assumes "\<not> is_list_path (pathname request)"
    and "toUpperCase (http_method request) = ''POST''"
  shows "fetch host request env = (Inr \<lparr> status = 405, headers = [], body = BodyUndefined \<rparr>, [])"
  using assms by (simp add: fetch_def new_Response_def)

lemma cors_at_serve_fetch:
  assumes "caches_default host (url request) = None"
  shows "cors_at_serve request (fetch_allowedOrigin env request) (fetch host request env)"
proof -
  consider (list) "is_list_path (pathname request)"
    | (post) "\<not> is_list_path (pathname request)" "toUpperCase (http_method request) = ''POST''"
    | (route) "\<not> is_list_path (pathname request)" "toUpperCase (http_method request) \<noteq> ''POST''"
    by blast
  then show ?thesis
  proof cases
    case list
    then show ?thesis
      by (simp add: cors_at_serve_def fetch_list)
  next
    case post
    then show ?thesis by (simp add: fetch_post cors_at_serve_direct)
  next
    case route
    show ?thesis
      unfolding fetch_miss [OF route assms]
      by (intro cors_at_serve_after)
         (simp_all add: cors_at_serve_fonts cors_at_serve_styles cors_at_serve_try
            cors_at_serve_direct)
  qed
qed

lemma cors_at_serve_fetch_any:
  "cors_at_serve request (fetch_allowedOrigin env request) (fetch host request env)"
proof (cases "caches_default host (url request)")
  case None
  then show ?thesis by (rule cors_at_serve_fetch)
next
  case (Some cached)
  consider (list) "is_list_path (pathname request)"
    | (post) "\<not> is_list_path (pathname request)" "toUpperCase (http_method request) = ''POST''"
    | (route) "\<not> is_list_path (pathname request)" "toUpperCase (http_method request) \<noteq> ''POST''"
    by blast
  then show ?thesis
  proof cases
    case list
    then show ?thesis by (simp add: cors_at_serve_def fetch_list)
  next
    case post
    then show ?thesis by (simp add: fetch_post cors_at_serve_direct)
  next
    case route
    then show ?thesis by (simp add: fetch_hit [OF route Some] cors_at_serve_noput)
  qed
qed

lemma fetch_cached_props:
  "status (fetch_cached ao cached) = status cached
   \<and> body (fetch_cached ao cached) = body cached
   \<and> headers_get (headers (fetch_cached ao cached)) ''Vary'' = Some ''Origin''
   \<and> headers_get (headers (fetch_cached ao cached)) ''Access-Control-Allow-Origin''
       = (if ao = [] then headers_get (headers cached) ''Access-Control-Allow-Origin''
          else Some ao)"
  by (simp add: fetch_cached_def Let_def headers_get_set)

subsection \<open>The font loop\<close>

lemma checkFonts_loop_find:
  "checkFonts_loop env fonts part2 hs cr =
     (case find (\<lambda>k. get (BUCKET env) k \<noteq> None)
             (map (\<lambda>font. ''fonts/'' @ font @ ''/'' @ part2) fonts) of
        None \<Rightarrow>
          (Inr (new_Response (BodyString ''Font not found'') [] 404),
           map Bucket_get (map (\<lambda>font. ''fonts/'' @ font @ ''/'' @ part2) fonts))
      | Some k \<Rightarrow>
          after (map Bucket_get
                   (takeWhile (\<lambda>k. get (BUCKET env) k = None)
                      (map (\<lambda>font. ''fonts/'' @ font @ ''/'' @ part2) fonts) @ [k]))
            (returns (cr (BodyBuffer (snd (the (get (BUCKET env) k))))
                        (headers_set ''Content-Type'' ''application/x-protobuf'' hs) 200)))"
  by (induction fonts) (auto simp: Let_def after_def returns_def split: option.splits)

lemma fonts_route:
  assumes "http_method request \<in> set [''GET'', ''HEAD'', ''OPTIONS'']"
    and "startsWith (pathname request) ''/fonts''"
  shows "\<not> is_list_path (pathname request)"
    and "toUpperCase (http_method request) \<noteq> ''POST''"
  using assms
  by (auto simp: is_list_path_def startsWith_def toUpperCase_def toUpperCase_char_def)

section \<open>Properties\<close>

subsection \<open>The decompression stage\<close>

text \<open>
  Claim C8. Decompression with the tag None or Unknown returns the buffer as it is, with
  the tag Gzip it is the platform's gzip inflate of the buffer, and with any other tag it
  throws the error "Compression method not supported": the bytes are not passed through.
\<close>

theorem nativeDecompress_by_tag:
  "nativeDecompress gunzip buf CompressionNone = Inr buf
   \<and> nativeDecompress gunzip buf CompressionUnknown = Inr buf
   \<and> nativeDecompress gunzip buf Gzip = gunzip buf
   \<and> (\<forall>c. c \<noteq> CompressionNone \<and> c \<noteq> CompressionUnknown \<and> c \<noteq> Gzip \<longrightarrow>
         nativeDecompress gunzip buf c = Inl (Error ''Compression method not supported''))"
  by (simp add: nativeDecompress_def)

theorem nativeDecompress_by_tag_witness:
  "OtherCompression 3 \<noteq> CompressionNone \<and> OtherCompression 3 \<noteq> CompressionUnknown
   \<and> OtherCompression 3 \<noteq> Gzip
   \<and> nativeDecompress (\<lambda>b. Inr (rev b)) [31, 139, 8] (OtherCompression 3)
       = Inl (Error ''Compression method not supported'')
   \<and> nativeDecompress (\<lambda>b. Inr (rev b)) [31, 139, 8] CompressionNone = Inr [31, 139, 8]
   \<and> nativeDecompress (\<lambda>b. Inr (rev b)) [31, 139, 8] Gzip = Inr [8, 139, 31]"
  using nativeDecompress_by_tag [of "\<lambda>b. Inr (rev b)" "[31, 139, 8]"]
  by simp

subsection \<open>The range source\<close>

text \<open>
  Claim C4. A call of \<open>getBytes\<close> has exactly one of three outcomes, decided by the
  one answer of the bucket: the not-found error when the object is absent, the ETag
  mismatch when the object comes without a body, and otherwise the bytes with the
  object's etag. It reads the bucket once and does not retry.
\<close>

theorem getBytes_one_outcome:
  "(fst (getBytes pmtiles_path env archiveName offset len etg)
      = Inl (KeyNotFoundError ''Archive not found'')
    \<longleftrightarrow> get_range (BUCKET env) (pmtiles_path archiveName (PMTILES_PATH env)) offset len etg
          = R2Null)
   \<and> (fst (getBytes pmtiles_path env archiveName offset len etg) = Inl EtagMismatch
    \<longleftrightarrow> (\<exists>obj. get_range (BUCKET env) (pmtiles_path archiveName (PMTILES_PATH env))
                  offset len etg = R2ObjectOnly obj))
   \<and> (\<forall>r. fst (getBytes pmtiles_path env archiveName offset len etg) = Inr r
    \<longleftrightarrow> (\<exists>obj. get_range (BUCKET env) (pmtiles_path archiveName (PMTILES_PATH env))
                  offset len etg = R2ObjectBody obj (data r)
               \<and> etag r = r2_etag obj \<and> cacheControl r = r2_cacheControl obj
               \<and> expires r = r2_cacheExpiry obj))
   \<and> (fst (getBytes pmtiles_path env archiveName offset len etg)
         = Inl (KeyNotFoundError ''Archive not found'')
       \<or> fst (getBytes pmtiles_path env archiveName offset len etg) = Inl EtagMismatch
       \<or> (\<exists>r. fst (getBytes pmtiles_path env archiveName offset len etg) = Inr r))
   \<and> snd (getBytes pmtiles_path env archiveName offset len etg)
       = [Bucket_get (pmtiles_path archiveName (PMTILES_PATH env))]"
  by (auto simp: getBytes_def Let_def split: R2GetResult.splits)

theorem getBytes_one_outcome_witness:
  "fst (getBytes ex_pmtiles_path ex_range_env ''world'' 2 3 (Some ''v1''))
     = Inr \<lparr> data = [84, 105, 108], etag = ''v1'', cacheControl = None, expires = None \<rparr>
   \<and> fst (getBytes ex_pmtiles_path ex_range_env ''world'' 2 3 (Some ''v0'')) = Inl EtagMismatch
   \<and> fst (getBytes ex_pmtiles_path ex_range_env ''moon'' 2 3 None)
     = Inl (KeyNotFoundError ''Archive not found'')
   \<and> snd (getBytes ex_pmtiles_path ex_range_env ''world'' 2 3 (Some ''v0''))
     = [Bucket_get ''tiles/world.pmtiles'']"
  using getBytes_one_outcome [of ex_pmtiles_path ex_range_env "''world''" 2 3 "Some ''v0''"]
    getBytes_one_outcome [of ex_pmtiles_path ex_range_env "''world''" 2 3 "Some ''v1''"]
    getBytes_one_outcome [of ex_pmtiles_path ex_range_env "''moon''" 2 3 None]
  by (simp add: getBytes_def ex_range_env_def ex_range_bucket_def ex_pmtiles_path_def)

subsection \<open>The tile route\<close>

text \<open>
  Claim C2. For a tile request whose zoom is below the header's minZoom or above its
  maxZoom, \<open>getZxy\<close> is never called, and the fresh response (the request missed the
  edge cache) is a 404 without a body, which is also what goes into the cache.
\<close>

theorem zoom_out_of_range:
  assumes "routed_to_archive host request"
    and "tile (tile_path host (pathname request)) = Some (z, x, y)"
    and "getHeader (new_PMTiles host (name (tile_path host (pathname request)))) = Inr pHeader"
    and "z < minZoom pHeader \<or> maxZoom pHeader < z"
  shows "(\<forall>n z' x' y'. PMTiles_getZxy n z' x' y' \<notin> set (snd (fetch host request env)))
    \<and> (caches_default host (url request) = None \<longrightarrow>
         (\<exists>r c. fetch host request env =
                  (Inr r, [Cache_match (url request),
                           PMTiles_getHeader (name (tile_path host (pathname request))),
                           Cache_put (url request) c])
              \<and> status r = 404 \<and> body r = BodyUndefined
              \<and> status c = 404 \<and> body c = BodyUndefined))"
proof (cases "caches_default host (url request)")
  case None
  have "fetch host request env =
          after [Cache_match (url request)]
            (fetch_try host request env (tile_path host (pathname request))
               (cacheableResponse env request (fetch_allowedOrigin env request)))"
    using assms(1) None by (rule fetch_routed)
  moreover have "fetch_try host request env (tile_path host (pathname request))
               (cacheableResponse env request (fetch_allowedOrigin env request)) =
          after [PMTiles_getHeader (name (tile_path host (pathname request)))]
            (returns (cacheableResponse env request (fetch_allowedOrigin env request)
               BodyUndefined [] 404))"
    using assms(2-4) by (auto simp: fetch_try_def Let_def)
  ultimately show ?thesis
    using None
    by (simp add: after_def returns_def snd_cacheableResponse status_cacheableResponse
        body_cacheableResponse status_new_Response body_new_Response)
next
  case (Some cached)
  then show ?thesis
    using fetch_routed_hit [OF assms(1) Some] by simp
qed

theorem zoom_out_of_range_witness:
  "routed_to_archive ex_host (ex_request ''GET'' ''/myarchive/12/3/2.mvt'')
   \<and> tile (tile_path ex_host ''/myarchive/12/3/2.mvt'') = Some (12, 3, 2)
   \<and> getHeader (new_PMTiles ex_host ''myarchive'')
       = Inr \<lparr> minZoom = 0, maxZoom = 10, tileType = Mvt \<rparr>
   \<and> (10::nat) < 12
   \<and> caches_default ex_host ''https://tiles.example/myarchive/12/3/2.mvt'' = None
   \<and> fetch ex_host (ex_request ''GET'' ''/myarchive/12/3/2.mvt'') ex_env =
       (Inr \<lparr> status = 404,
              headers = [(''Cache-Control'', ''public, max-age=86400''),
                         (''Access-Control-Allow-Origin'', ''https://a.example''),
                         (''Vary'', ''Origin'')],
              body = BodyUndefined \<rparr>,
        [Cache_match ''https://tiles.example/myarchive/12/3/2.mvt'',
         PMTiles_getHeader ''myarchive'',
         Cache_put ''https://tiles.example/myarchive/12/3/2.mvt''
           \<lparr> status = 404, headers = [(''Cache-Control'', ''public, max-age=86400'')],
             body = BodyUndefined \<rparr>])"
  using zoom_out_of_range [where host = ex_host
      and request = "ex_request ''GET'' ''/myarchive/12/3/2.mvt''"
      and z = 12 and x = 3 and y = 2 and env = ex_env
      and pHeader = "\<lparr> minZoom = 0, maxZoom = 10, tileType = Mvt \<rparr>"]
  by (simp add: routed_to_archive_def ex_defs fetch_defs)

text \<open>
  Claim C1, in the form that holds. On a tile request within the zoom bounds that missed the edge cache:
  when the header's tile type has an entry in the table (Mvt, Png, Jpeg, Webp, Avif), the
  tile is read exactly when the extension is the one of the table, or the type is Mvt and
  the extension is "pbf"; every other extension gets a 400 whose body names the requested
  extension and the one of the table. The type Unknown has no entry in the table, and
  then the tile is read whatever the extension.
\<close>

theorem extension_check:
  assumes "routed_to_archive host request"
    and "caches_default host (url request) = None"
    and "tp = tile_path host (pathname request)"
    and "tile tp = Some (z, x, y)"
    and "getHeader (new_PMTiles host (name tp)) = Inr pHeader"
    and "minZoom pHeader \<le> z" and "z \<le> maxZoom pHeader"
  shows "(case map_of extension_table (tileType pHeader) of
            None \<Rightarrow>
              tileType pHeader = Unknown
              \<and> PMTiles_getZxy (name tp) z x y \<in> set (snd (fetch host request env))
          | Some canon \<Rightarrow>
              if ext tp = canon \<or> (tileType pHeader = Mvt \<and> ext tp = ''pbf'')
              then PMTiles_getZxy (name tp) z x y \<in> set (snd (fetch host request env))
              else (\<exists>r c. fetch host request env =
                            (Inr r, [Cache_match (url request), PMTiles_getHeader (name tp),
                                     Cache_put (url request) c])
                      \<and> status r = 400
                      \<and> body r = BodyString (''Bad request: requested .'' @ ext tp
                                    @ '' but archive has type .'' @ canon)
                      \<and> status c = 400 \<and> body c = body r))"
proof -
  have routed: "fetch host request env =
          after [Cache_match (url request)]
            (fetch_try host request env tp
               (cacheableResponse env request (fetch_allowedOrigin env request)))"
    using fetch_routed [OF assms(1,2)] assms(3) by simp
  show ?thesis
  proof (cases "extension_loop (tileType pHeader) (ext tp) extension_table")
    case None
    have "PMTiles_getZxy (name tp) z x y \<in> set (snd (fetch host request env))"
      using fetch_try_throws [OF assms(4-7) None] routed by (simp add: after_def)
    moreover have "map_of extension_table (tileType pHeader) = None
        \<Longrightarrow> tileType pHeader = Unknown"
      by (cases "tileType pHeader") (simp_all add: extension_table_def)
    ultimately show ?thesis
      using None by (auto simp: extension_loop_table split: option.splits if_splits)
  next
    case (Some canon)
    have "\<exists>r c. fetch host request env =
                  (Inr r, [Cache_match (url request), PMTiles_getHeader (name tp),
                           Cache_put (url request) c])
            \<and> status r = 400
            \<and> body r = BodyString (''Bad request: requested .'' @ ext tp
                          @ '' but archive has type .'' @ canon)
            \<and> status c = 400 \<and> body c = body r"
      using fetch_try_mismatch [OF assms(4-7) Some] routed
      by (simp add: after_def snd_cacheableResponse status_cacheableResponse
          body_cacheableResponse status_new_Response body_new_Response)
    then show ?thesis
      using Some by (auto simp: extension_loop_table split: option.splits if_splits)
  qed
qed

theorem extension_check_witness:
  "routed_to_archive ex_host (ex_request ''GET'' ''/myarchive/5/3/2.png'')
   \<and> caches_default ex_host ''https://tiles.example/myarchive/5/3/2.png'' = None
   \<and> tile_path ex_host ''/myarchive/5/3/2.png''
       = \<lparr> ok = True, name = ''myarchive'', tile = Some (5, 3, 2), ext = ''png'' \<rparr>
   \<and> getHeader (new_PMTiles ex_host ''myarchive'')
       = Inr \<lparr> minZoom = 0, maxZoom = 10, tileType = Mvt \<rparr>
   \<and> map_of extension_table Mvt = Some ''mvt''
   \<and> fetch ex_host (ex_request ''GET'' ''/myarchive/5/3/2.png'') ex_env =
       (Inr \<lparr> status = 400,
              headers = [(''Cache-Control'', ''public, max-age=86400''),
                         (''Access-Control-Allow-Origin'', ''https://a.example''),
                         (''Vary'', ''Origin''),
                         (''Content-Type'', ''text/plain;charset=UTF-8'')],
              body = BodyString ''Bad request: requested .png but archive has type .mvt'' \<rparr>,
        [Cache_match ''https://tiles.example/myarchive/5/3/2.png'',
         PMTiles_getHeader ''myarchive'',
         Cache_put ''https://tiles.example/myarchive/5/3/2.png''
           \<lparr> status = 400,
             headers = [(''Cache-Control'', ''public, max-age=86400''),
                        (''Content-Type'', ''text/plain;charset=UTF-8'')],
             body = BodyString ''Bad request: requested .png but archive has type .mvt'' \<rparr>])
   \<and> PMTiles_getZxy ''myarchive'' 5 3 2
       \<in> set (snd (fetch ex_host (ex_request ''GET'' ''/myarchive/5/3/2.mvt'') ex_env))"
  using extension_check [where host = ex_host
      and request = "ex_request ''GET'' ''/myarchive/5/3/2.png''"
      and tp = "tile_path ex_host ''/myarchive/5/3/2.png''"
      and z = 5 and x = 3 and y = 2 and env = ex_env
      and pHeader = "\<lparr> minZoom = 0, maxZoom = 10, tileType = Mvt \<rparr>"]
  by (simp add: routed_to_archive_def ex_defs fetch_defs)

text \<open>
  Without the restriction to the types of the table the claim fails: an archive of type
  Unknown serves \<open>/scans/5/3/2.png\<close> with 200.
\<close>

theorem extension_check_counterexample:
  "tile_path ex_host ''/scans/5/3/2.png''
       = \<lparr> ok = True, name = ''scans'', tile = Some (5, 3, 2), ext = ''png'' \<rparr>
   \<and> getHeader (new_PMTiles ex_host ''scans'')
       = Inr \<lparr> minZoom = 0, maxZoom = 10, tileType = Unknown \<rparr>
   \<and> map_of extension_table Unknown = None
   \<and> fetch ex_host (ex_request ''GET'' ''/scans/5/3/2.png'') ex_env =
       (Inr \<lparr> status = 200,
              headers = [(''Cache-Control'', ''public, max-age=86400''),
                         (''Access-Control-Allow-Origin'', ''https://a.example''),
                         (''Vary'', ''Origin'')],
              body = BodyBuffer [26, 2, 120, 2] \<rparr>,
        [Cache_match ''https://tiles.example/scans/5/3/2.png'',
         PMTiles_getHeader ''scans'', PMTiles_getZxy ''scans'' 5 3 2,
         Cache_put ''https://tiles.example/scans/5/3/2.png''
           \<lparr> status = 200, headers = [(''Cache-Control'', ''public, max-age=86400'')],
             body = BodyBuffer [26, 2, 120, 2] \<rparr>])"
  by (simp add: ex_defs fetch_defs)

text \<open>
  Claim C9. A tile request within the zoom bounds that passes the extension check (the
  loop over the table runs to its end) and for which \<open>getZxy\<close> returns no tile gets
  a 204 without a body, and the same 204 is put into the edge cache.
\<close>

theorem no_tile_data_204:
  assumes "routed_to_archive host request"
    and "caches_default host (url request) = None"
    and "tp = tile_path host (pathname request)"
    and "tile tp = Some (z, x, y)"
    and "getHeader (new_PMTiles host (name tp)) = Inr pHeader"
    and "minZoom pHeader \<le> z" and "z \<le> maxZoom pHeader"
    and "extension_loop (tileType pHeader) (ext tp) extension_table = None"
    and "getZxy (new_PMTiles host (name tp)) z x y = Inr None"
  shows "\<exists>r c. fetch host request env =
                 (Inr r, [Cache_match (url request), PMTiles_getHeader (name tp),
                          PMTiles_getZxy (name tp) z x y, Cache_put (url request) c])
           \<and> status r = 204 \<and> body r = BodyUndefined
           \<and> status c = 204 \<and> body c = BodyUndefined"
proof -
  have "fetch host request env =
          after [Cache_match (url request)]
            (fetch_try host request env tp
               (cacheableResponse env request (fetch_allowedOrigin env request)))"
    using fetch_routed [OF assms(1,2)] assms(3) by simp
  then show ?thesis
    using fetch_try_tile [OF assms(4-9)]
    by (simp add: after_def snd_cacheableResponse status_cacheableResponse
        body_cacheableResponse status_new_Response body_new_Response)
qed

theorem no_tile_data_204_witness:
  "routed_to_archive ex_host (ex_request ''GET'' ''/myarchive/5/3/3.pbf'')
   \<and> caches_default ex_host ''https://tiles.example/myarchive/5/3/3.pbf'' = None
   \<and> tile (tile_path ex_host ''/myarchive/5/3/3.pbf'') = Some (5, 3, 3)
   \<and> getHeader (new_PMTiles ex_host ''myarchive'')
       = Inr \<lparr> minZoom = 0, maxZoom = 10, tileType = Mvt \<rparr>
   \<and> extension_loop Mvt ''pbf'' extension_table = None
   \<and> getZxy (new_PMTiles ex_host ''myarchive'') 5 3 3 = Inr None
   \<and> fetch ex_host (ex_request ''GET'' ''/myarchive/5/3/3.pbf'') ex_env =
       (Inr \<lparr> status = 204,
              headers = [(''Content-Type'', ''application/x-protobuf''),
                         (''Cache-Control'', ''public, max-age=86400''),
                         (''Access-Control-Allow-Origin'', ''https://a.example''),
                         (''Vary'', ''Origin'')],
              body = BodyUndefined \<rparr>,
        [Cache_match ''https://tiles.example/myarchive/5/3/3.pbf'',
         PMTiles_getHeader ''myarchive'', PMTiles_getZxy ''myarchive'' 5 3 3,
         Cache_put ''https://tiles.example/myarchive/5/3/3.pbf''
           \<lparr> status = 204,
             headers = [(''Content-Type'', ''application/x-protobuf''),
                        (''Cache-Control'', ''public, max-age=86400'')],
             body = BodyUndefined \<rparr>])"
  using no_tile_data_204 [where host = ex_host
      and request = "ex_request ''GET'' ''/myarchive/5/3/3.pbf''"
      and tp = "tile_path ex_host ''/myarchive/5/3/3.pbf''"
      and z = 5 and x = 3 and y = 3 and env = ex_env
      and pHeader = "\<lparr> minZoom = 0, maxZoom = 10, tileType = Mvt \<rparr>"]
  by (simp add: routed_to_archive_def ex_defs fetch_defs)

text \<open>
  Claim C10. An accepted tile request against an archive of type Avif gets a 200 with the
  tile's bytes and without a Content-Type header, in the response and in the cached copy:
  the switch on the tile type sets a content type for Mvt, Png, Jpeg and Webp only.
\<close>

theorem avif_no_content_type:
  assumes "routed_to_archive host request"
    and "caches_default host (url request) = None"
    and "tp = tile_path host (pathname request)"
    and "tile tp = Some (z, x, y)"
    and "getHeader (new_PMTiles host (name tp)) = Inr pHeader"
    and "minZoom pHeader \<le> z" and "z \<le> maxZoom pHeader"
    and "tileType pHeader = Avif" and "ext tp = ''avif''"
    and "getZxy (new_PMTiles host (name tp)) z x y = Inr (Some d)"
  shows "(\<exists>r c. fetch host request env =
                 (Inr r, [Cache_match (url request), PMTiles_getHeader (name tp),
                          PMTiles_getZxy (name tp) z x y, Cache_put (url request) c])
           \<and> status r = 200 \<and> body r = BodyBuffer d
           \<and> headers_get (headers r) ''Content-Type'' = None
           \<and> headers_get (headers c) ''Content-Type'' = None)
    \<and> (\<forall>tt. headers_get (content_type_switch tt []) ''Content-Type'' \<noteq> None
             \<longleftrightarrow> tt \<in> {Mvt, Png, Jpeg, Webp})"
proof -
  have routed: "fetch host request env =
          after [Cache_match (url request)]
            (fetch_try host request env tp
               (cacheableResponse env request (fetch_allowedOrigin env request)))"
    using fetch_routed [OF assms(1,2)] assms(3) by simp
  have loop: "extension_loop (tileType pHeader) (ext tp) extension_table = None"
    using assms(8,9) by (simp add: extension_table_def)
  have switch: "content_type_switch (tileType pHeader) [] = []"
    using assms(8) by (simp add: content_type_switch_def)
  have "\<exists>r c. fetch host request env =
                 (Inr r, [Cache_match (url request), PMTiles_getHeader (name tp),
                          PMTiles_getZxy (name tp) z x y, Cache_put (url request) c])
           \<and> status r = 200 \<and> body r = BodyBuffer d
           \<and> headers_get (headers r) ''Content-Type'' = None
           \<and> headers_get (headers c) ''Content-Type'' = None"
    using fetch_try_tile [OF assms(4-7) loop assms(10)] routed switch
    by (simp add: after_def snd_cacheableResponse status_cacheableResponse
        body_cacheableResponse headers_cacheableResponse headers_get_new_Response
        headers_get_set headers_get_Nil status_new_Response body_new_Response)
  moreover have "headers_get (content_type_switch tt []) ''Content-Type'' \<noteq> None
             \<longleftrightarrow> tt \<in> {Mvt, Png, Jpeg, Webp}" for tt
    by (cases tt) (simp_all add: content_type_switch_def headers_get_set headers_get_Nil)
  ultimately show ?thesis by blast
qed

theorem avif_no_content_type_witness:
  "routed_to_archive ex_host (ex_request ''GET'' ''/photos/5/3/2.avif'')
   \<and> caches_default ex_host ''https://tiles.example/photos/5/3/2.avif'' = None
   \<and> tile_path ex_host ''/photos/5/3/2.avif''
       = \<lparr> ok = True, name = ''photos'', tile = Some (5, 3, 2), ext = ''avif'' \<rparr>
   \<and> getHeader (new_PMTiles ex_host ''photos'')
       = Inr \<lparr> minZoom = 0, maxZoom = 10, tileType = Avif \<rparr>
   \<and> getZxy (new_PMTiles ex_host ''photos'') 5 3 2 = Inr (Some [26, 2, 120, 2])
   \<and> fetch ex_host (ex_request ''GET'' ''/photos/5/3/2.avif'') ex_env =
       (Inr \<lparr> status = 200,
              headers = [(''Cache-Control'', ''public, max-age=86400''),
                         (''Access-Control-Allow-Origin'', ''https://a.example''),
                         (''Vary'', ''Origin'')],
              body = BodyBuffer [26, 2, 120, 2] \<rparr>,
        [Cache_match ''https://tiles.example/photos/5/3/2.avif'',
         PMTiles_getHeader ''photos'', PMTiles_getZxy ''photos'' 5 3 2,
         Cache_put ''https://tiles.example/photos/5/3/2.avif''
           \<lparr> status = 200, headers = [(''Cache-Control'', ''public, max-age=86400'')],
             body = BodyBuffer [26, 2, 120, 2] \<rparr>])"
  using avif_no_content_type [where host = ex_host
      and request = "ex_request ''GET'' ''/photos/5/3/2.avif''"
      and tp = "tile_path ex_host ''/photos/5/3/2.avif''"
      and z = 5 and x = 3 and y = 2 and env = ex_env and d = "[26, 2, 120, 2]"
      and pHeader = "\<lparr> minZoom = 0, maxZoom = 10, tileType = Avif \<rparr>"]
  by (simp add: routed_to_archive_def ex_defs fetch_defs)

subsection \<open>Routing and the edge cache\<close>

text \<open>
  Claim C3, in the form that holds. The listing route and the rejection of POST are decided before the
  edge cache is consulted: a request for the listing path queries the database and a POST
  is answered at once, whatever the cache holds. For every other request the lookup under
  the full request URL is the first call, before the font, style and tile routes, and a
  hit is the only call: the response has the status and body of the cached one and no
  route handler runs.
\<close>

theorem cache_lookup_after_listing_and_post:
  "(is_list_path (pathname request) \<longrightarrow> snd (fetch host request env) = [D1_all])
   \<and> (\<not> is_list_path (pathname request) \<and> toUpperCase (http_method request) = ''POST'' \<longrightarrow>
        snd (fetch host request env) = [])
   \<and> (\<not> is_list_path (pathname request) \<and> toUpperCase (http_method request) \<noteq> ''POST'' \<longrightarrow>
        (\<exists>rest. snd (fetch host request env) = Cache_match (url request) # rest)
        \<and> (\<forall>cached. caches_default host (url request) = Some cached \<longrightarrow>
              (\<exists>r. fetch host request env = (Inr r, [Cache_match (url request)])
                 \<and> status r = status cached \<and> body r = body cached)))"
proof (intro conjI impI allI)
  assume "is_list_path (pathname request)"
  then show "snd (fetch host request env) = [D1_all]" by (rule fetch_list)
next
  assume "\<not> is_list_path (pathname request) \<and> toUpperCase (http_method request) = ''POST''"
  then show "snd (fetch host request env) = []" by (simp add: fetch_post)
next
  assume "\<not> is_list_path (pathname request) \<and> toUpperCase (http_method request) \<noteq> ''POST''"
  then show "\<exists>rest. snd (fetch host request env) = Cache_match (url request) # rest"
    by (simp add: fetch_def Let_def after_def)
next
  fix cached
  assume "\<not> is_list_path (pathname request) \<and> toUpperCase (http_method request) \<noteq> ''POST''"
    and "caches_default host (url request) = Some cached"
  then show "\<exists>r. fetch host request env = (Inr r, [Cache_match (url request)])
                 \<and> status r = status cached \<and> body r = body cached"
    using fetch_hit [of request host cached env] fetch_cached_props by simp
qed

theorem cache_lookup_after_listing_and_post_witness:
  "is_list_path ''/myarchive/5/3/2.mvt'' = False
   \<and> toUpperCase ''GET'' \<noteq> ''POST''
   \<and> caches_default ex_cached_host ''https://tiles.example/myarchive/5/3/2.mvt''
       = Some \<lparr> status = 200,
                headers = [(''Content-Type'', ''application/x-protobuf''),
                           (''Cache-Control'', ''public, max-age=86400'')],
                body = BodyBuffer [26, 2, 120, 2] \<rparr>
   \<and> snd (fetch ex_cached_host (ex_request ''GET'' ''/myarchive/5/3/2.mvt'') ex_env)
       = [Cache_match ''https://tiles.example/myarchive/5/3/2.mvt'']
   \<and> is_list_path ''/list''
   \<and> snd (fetch ex_cached_host (ex_request ''GET'' ''/list'') ex_env) = [D1_all]
   \<and> toUpperCase ''POST'' = ''POST''
   \<and> snd (fetch ex_cached_host (ex_request ''POST'' ''/myarchive/5/3/2.mvt'') ex_env) = []"
  using cache_lookup_after_listing_and_post [where host = ex_cached_host
      and request = "ex_request ''GET'' ''/myarchive/5/3/2.mvt''" and env = ex_env]
    cache_lookup_after_listing_and_post [where host = ex_cached_host
      and request = "ex_request ''GET'' ''/list''" and env = ex_env]
    cache_lookup_after_listing_and_post [where host = ex_cached_host
      and request = "ex_request ''POST'' ''/myarchive/5/3/2.mvt''" and env = ex_env]
  by (simp add: ex_defs fetch_defs)

text \<open>
  A hit does not short-circuit the method check: a POST to a URL that is in the cache gets
  the 405, and the cache is not consulted.
\<close>

theorem cache_lookup_first_counterexample:
  "caches_default ex_cached_host (url (ex_request ''POST'' ''/myarchive/5/3/2.mvt''))
       = Some \<lparr> status = 200,
                headers = [(''Content-Type'', ''application/x-protobuf''),
                           (''Cache-Control'', ''public, max-age=86400'')],
                body = BodyBuffer [26, 2, 120, 2] \<rparr>
   \<and> fetch ex_cached_host (ex_request ''POST'' ''/myarchive/5/3/2.mvt'') ex_env =
       (Inr \<lparr> status = 405, headers = [], body = BodyUndefined \<rparr>, [])"
  by (simp add: ex_defs fetch_defs)

text \<open>
  Claim C6, in the form that holds. A request that does not match the listing path and whose method is
  POST, in any letter case, gets a 405 without body or headers, and no collaborator is
  called. A request with any other method is not rejected for its method: it goes on to
  the lookup in the edge cache.
\<close>

theorem post_rejected:
  assumes "\<not> is_list_path (pathname request)"
  shows "(toUpperCase (http_method request) = ''POST'' \<longrightarrow>
            fetch host request env =
              (Inr \<lparr> status = 405, headers = [], body = BodyUndefined \<rparr>, []))
       \<and> (toUpperCase (http_method request) \<noteq> ''POST'' \<longrightarrow>
            (\<exists>rest. snd (fetch host request env) = Cache_match (url request) # rest))"
proof (intro conjI impI)
  assume "toUpperCase (http_method request) = ''POST''"
  with assms show "fetch host request env =
      (Inr \<lparr> status = 405, headers = [], body = BodyUndefined \<rparr>, [])"
    by (rule fetch_post)
next
  assume "toUpperCase (http_method request) \<noteq> ''POST''"
  with assms show "\<exists>rest. snd (fetch host request env) = Cache_match (url request) # rest"
    by (simp add: fetch_def Let_def after_def)
qed

theorem post_rejected_witness:
  "is_list_path ''/myarchive/5/3/2.mvt'' = False
   \<and> toUpperCase ''post'' = ''POST''
   \<and> fetch ex_host (ex_request ''post'' ''/myarchive/5/3/2.mvt'') ex_env =
       (Inr \<lparr> status = 405, headers = [], body = BodyUndefined \<rparr>, [])
   \<and> toUpperCase ''PUT'' \<noteq> ''POST''
   \<and> hd (snd (fetch ex_host (ex_request ''PUT'' ''/myarchive/5/3/2.mvt'') ex_env))
       = Cache_match ''https://tiles.example/myarchive/5/3/2.mvt''"
  using post_rejected [where host = ex_host
      and request = "ex_request ''post'' ''/myarchive/5/3/2.mvt''" and env = ex_env]
    post_rejected [where host = ex_host
      and request = "ex_request ''PUT'' ''/myarchive/5/3/2.mvt''" and env = ex_env]
  by (simp add: ex_defs fetch_defs)

text \<open>
  A PUT is not rejected: it is neither GET, HEAD nor OPTIONS, and gets the tile with 200.
\<close>

theorem method_check_counterexample:
  "is_list_path (pathname (ex_request ''PUT'' ''/myarchive/5/3/2.mvt'')) = False
   \<and> http_method (ex_request ''PUT'' ''/myarchive/5/3/2.mvt'') = ''PUT''
   \<and> ''PUT'' \<notin> set [''GET'', ''HEAD'', ''OPTIONS'']
   \<and> fetch ex_host (ex_request ''PUT'' ''/myarchive/5/3/2.mvt'') ex_env =
       (Inr \<lparr> status = 200,
              headers = [(''Content-Type'', ''application/x-protobuf''),
                         (''Cache-Control'', ''public, max-age=86400''),
                         (''Access-Control-Allow-Origin'', ''https://a.example''),
                         (''Vary'', ''Origin'')],
              body = BodyBuffer [26, 2, 120, 2] \<rparr>,
        [Cache_match ''https://tiles.example/myarchive/5/3/2.mvt'',
         PMTiles_getHeader ''myarchive'', PMTiles_getZxy ''myarchive'' 5 3 2,
         Cache_put ''https://tiles.example/myarchive/5/3/2.mvt''
           \<lparr> status = 200,
             headers = [(''Content-Type'', ''application/x-protobuf''),
                        (''Cache-Control'', ''public, max-age=86400'')],
             body = BodyBuffer [26, 2, 120, 2] \<rparr>])"
  by (simp add: ex_defs fetch_defs)

subsection \<open>The font route\<close>

text \<open>
  Claim C5. A font request (method GET, HEAD or OPTIONS, path under \<open>/fonts\<close>, with a
  family list and a glyph range, not in the edge cache) probes the keys
  \<open>fonts/<family>/<glyphRange>\<close> one after the other in the order of the list, up to the
  first that exists, and returns that object's bytes with status 200 and the content type
  \<open>application/x-protobuf\<close>; when no family resolves it probes all of them and
  answers 404.
\<close>

theorem fonts_first_family:
  assumes "http_method request \<in> set [''GET'', ''HEAD'', ''OPTIONS'']"
    and "startsWith (pathname request) ''/fonts''"
    and "caches_default host (url request) = None"
    and "js_split CHR ''/'' (replace_pct20 (drop 1 (pathname request)))
           = seg # families # glyphRange # rest"
    and "keys = map (\<lambda>family. ''fonts/'' @ family @ ''/'' @ glyphRange)
                  (js_split CHR '','' families)"
  shows "(case find (\<lambda>k. get (BUCKET env) k \<noteq> None) keys of
            None \<Rightarrow>
              (\<exists>r. fetch host request env =
                      (Inr r, Cache_match (url request) # map Bucket_get keys)
                 \<and> status r = 404)
          | Some k \<Rightarrow>
              (\<exists>r c obj a. fetch host request env =
                      (Inr r, Cache_match (url request)
                         # map Bucket_get
                             (takeWhile (\<lambda>k. get (BUCKET env) k = None) keys @ [k])
                         @ [Cache_put (url request) c])
                 \<and> get (BUCKET env) k = Some (obj, a)
                 \<and> status r = 200 \<and> body r = BodyBuffer a
                 \<and> headers_get (headers r) ''Content-Type'' = Some ''application/x-protobuf''))"
proof -
  have "fetch host request env =
          after [Cache_match (url request)]
            (checkFonts env (drop 1 (pathname request)) []
               (cacheableResponse env request (fetch_allowedOrigin env request)))"
    using fetch_miss [OF fonts_route [OF assms(1,2)] assms(3)] assms(1,2) by simp
  moreover have "checkFonts env (drop 1 (pathname request)) []
               (cacheableResponse env request (fetch_allowedOrigin env request)) =
          checkFonts_loop env (js_split CHR '','' families) glyphRange []
               (cacheableResponse env request (fetch_allowedOrigin env request))"
    using assms(4) by (simp add: checkFonts_def Let_def at_index_def)
  ultimately have run: "fetch host request env =
          after [Cache_match (url request)]
            (checkFonts_loop env (js_split CHR '','' families) glyphRange []
               (cacheableResponse env request (fetch_allowedOrigin env request)))"
    by simp
  show ?thesis
  proof (cases "find (\<lambda>k. get (BUCKET env) k \<noteq> None) keys")
    case None
    then show ?thesis
      using run assms(5)
      by (simp add: checkFonts_loop_find after_def status_new_Response)
  next
    case (Some k)
    then have "get (BUCKET env) k \<noteq> None"
      by (auto simp: find_Some_iff)
    then obtain obj a where "get (BUCKET env) k = Some (obj, a)"
      by auto
    then show ?thesis
      using run assms(5) Some
      by (simp add: checkFonts_loop_find after_def returns_def snd_cacheableResponse
          status_cacheableResponse body_cacheableResponse headers_cacheableResponse
          headers_get_new_Response headers_get_set)
  qed
qed

theorem fonts_first_family_witness:
  "''GET'' \<in> set [''GET'', ''HEAD'', ''OPTIONS'']
   \<and> startsWith ''/fonts/A,B/0-255.pbf'' ''/fonts''
   \<and> caches_default ex_host ''https://tiles.example/fonts/A,B/0-255.pbf'' = None
   \<and> js_split CHR ''/'' (replace_pct20 (drop 1 ''/fonts/A,B/0-255.pbf''))
       = [''fonts'', ''A,B'', ''0-255.pbf'']
   \<and> map (\<lambda>family. ''fonts/'' @ family @ ''/'' @ ''0-255.pbf'') (js_split CHR '','' ''A,B'')
       = [''fonts/A/0-255.pbf'', ''fonts/B/0-255.pbf'']
   \<and> find (\<lambda>k. get (BUCKET ex_env) k \<noteq> None) [''fonts/A/0-255.pbf'', ''fonts/B/0-255.pbf'']
       = Some ''fonts/B/0-255.pbf''
   \<and> fetch ex_host (ex_request ''GET'' ''/fonts/A,B/0-255.pbf'') ex_env =
       (Inr \<lparr> status = 200,
              headers = [(''Content-Type'', ''application/x-protobuf''),
                         (''Cache-Control'', ''public, max-age=86400''),
                         (''Access-Control-Allow-Origin'', ''https://a.example''),
                         (''Vary'', ''Origin'')],
              body = BodyBuffer [10, 1, 66] \<rparr>,
        [Cache_match ''https://tiles.example/fonts/A,B/0-255.pbf'',
         Bucket_get ''fonts/A/0-255.pbf'', Bucket_get ''fonts/B/0-255.pbf'',
         Cache_put ''https://tiles.example/fonts/A,B/0-255.pbf''
           \<lparr> status = 200,
             headers = [(''Content-Type'', ''application/x-protobuf''),
                        (''Cache-Control'', ''public, max-age=86400'')],
             body = BodyBuffer [10, 1, 66] \<rparr>])
   \<and> status (projr (fst (fetch ex_host (ex_request ''GET'' ''/fonts/A,C/0-255.pbf'') ex_env)))
       = 404"
proof -
  let ?req = "ex_request ''GET'' ''/fonts/A,B/0-255.pbf''"
  have m: "http_method ?req \<in> set [''GET'', ''HEAD'', ''OPTIONS'']"
    by (simp add: ex_request_def)
  have p: "startsWith (pathname ?req) ''/fonts''"
    by (simp add: ex_request_def startsWith_def)
  have c: "caches_default ex_host (url ?req) = None"
    by (simp add: ex_host_def)
  have s: "js_split CHR ''/'' (replace_pct20 (drop 1 (pathname ?req)))
       = ''fonts'' # ''A,B'' # ''0-255.pbf'' # []"
    by (simp add: ex_request_def)
  have k: "[''fonts/A/0-255.pbf'', ''fonts/B/0-255.pbf'']
      = map (\<lambda>family. ''fonts/'' @ family @ ''/'' @ ''0-255.pbf'') (js_split CHR '','' ''A,B'')"
    by simp
  have f: "find (\<lambda>k. get (BUCKET ex_env) k \<noteq> None)
       [''fonts/A/0-255.pbf'', ''fonts/B/0-255.pbf''] = Some ''fonts/B/0-255.pbf''"
    by (simp add: ex_env_def ex_fonts_bucket_def)
  have "\<exists>r c obj a. fetch ex_host ?req ex_env =
                      (Inr r, Cache_match (url ?req)
                         # map Bucket_get
                             (takeWhile (\<lambda>k. get (BUCKET ex_env) k = None)
                                [''fonts/A/0-255.pbf'', ''fonts/B/0-255.pbf'']
                              @ [''fonts/B/0-255.pbf''])
                         @ [Cache_put (url ?req) c])
                 \<and> get (BUCKET ex_env) ''fonts/B/0-255.pbf'' = Some (obj, a)
                 \<and> status r = 200 \<and> body r = BodyBuffer a
                 \<and> headers_get (headers r) ''Content-Type'' = Some ''application/x-protobuf''"
    using fonts_first_family [OF m p c s k, of ex_env] by (simp only: f option.case)
  moreover have "fetch ex_host ?req ex_env =
       (Inr \<lparr> status = 200,
              headers = [(''Content-Type'', ''application/x-protobuf''),
                         (''Cache-Control'', ''public, max-age=86400''),
                         (''Access-Control-Allow-Origin'', ''https://a.example''),
                         (''Vary'', ''Origin'')],
              body = BodyBuffer [10, 1, 66] \<rparr>,
        [Cache_match ''https://tiles.example/fonts/A,B/0-255.pbf'',
         Bucket_get ''fonts/A/0-255.pbf'', Bucket_get ''fonts/B/0-255.pbf'',
         Cache_put ''https://tiles.example/fonts/A,B/0-255.pbf''
           \<lparr> status = 200,
             headers = [(''Content-Type'', ''application/x-protobuf''),
                        (''Cache-Control'', ''public, max-age=86400'')],
             body = BodyBuffer [10, 1, 66] \<rparr>])"
    by (simp add: ex_defs fetch_defs)
  moreover have "status (projr (fst (fetch ex_host (ex_request ''GET'' ''/fonts/A,C/0-255.pbf'')
       ex_env))) = 404"
    by (simp add: ex_defs fetch_defs)
  ultimately show ?thesis
    using m p c s k [symmetric] f by (simp add: ex_request_def)
qed

subsection \<open>CORS headers and the edge cache\<close>

text \<open>
  Claim C7, in the form that holds. For every response that is served from the edge cache, or served
  fresh and stored in it: the response carries \<open>Vary: Origin\<close>; it carries the allowed
  origin (an entry of the allow-list that equals the request's Origin or is the wildcard)
  as \<open>Access-Control-Allow-Origin\<close> when there is one; and the copy stored under the
  request's URL has the same status and body and neither header. Responses that are built
  without \<open>cacheableResponse\<close>, such as the listing, the 405 and the 404 "Invalid URL",
  are not stored and are outside this statement.
\<close>

theorem cors_applied_at_serve_time:
  assumes "fetch host request env = (Inr r, evs)"
    and "ao = fetch_allowedOrigin env request"
  shows "(\<forall>u c. Cache_put u c \<in> set evs \<longrightarrow>
            u = url request \<and> status c = status r \<and> body c = body r
            \<and> headers_get (headers c) ''Access-Control-Allow-Origin'' = None
            \<and> headers_get (headers c) ''Vary'' = None
            \<and> headers_get (headers r) ''Vary'' = Some ''Origin''
            \<and> headers_get (headers r) ''Access-Control-Allow-Origin''
                = (if ao = [] then None else Some ao))
    \<and> (\<forall>cached. \<not> is_list_path (pathname request)
            \<and> toUpperCase (http_method request) \<noteq> ''POST''
            \<and> caches_default host (url request) = Some cached \<longrightarrow>
            evs = [Cache_match (url request)]
            \<and> status r = status cached \<and> body r = body cached
            \<and> headers_get (headers r) ''Vary'' = Some ''Origin''
            \<and> headers_get (headers r) ''Access-Control-Allow-Origin''
                = (if ao = [] then headers_get (headers cached) ''Access-Control-Allow-Origin''
                   else Some ao))
    \<and> (ao \<noteq> [] \<longrightarrow>
          (\<exists>origins. ALLOWED_ORIGINS env = Some origins
             \<and> ao \<in> set (js_split CHR '','' origins)
             \<and> (Origin request = Some ao \<or> ao = ''*'')))"
proof (intro conjI allI impI)
  fix u c
  assume "Cache_put u c \<in> set evs"
  then have "fst (fetch host request env) = Inr r
      \<and> Cache_put u c \<in> set (snd (fetch host request env))"
    using assms(1) by simp
  then have "u = url request \<and> status c = status r \<and> body c = body r
            \<and> headers_get (headers c) ''Access-Control-Allow-Origin'' = None
            \<and> headers_get (headers c) ''Vary'' = None
            \<and> headers_get (headers r) ''Vary'' = Some ''Origin''
            \<and> headers_get (headers r) ''Access-Control-Allow-Origin''
                = (if ao = [] then None else Some ao)"
    using cors_at_serve_fetch_any [of request env host] assms(2)
    unfolding cors_at_serve_def by blast
  then show "u = url request" and "status c = status r" and "body c = body r"
    and "headers_get (headers c) ''Access-Control-Allow-Origin'' = None"
    and "headers_get (headers c) ''Vary'' = None"
    and "headers_get (headers r) ''Vary'' = Some ''Origin''"
    and "headers_get (headers r) ''Access-Control-Allow-Origin''
                = (if ao = [] then None else Some ao)"
    by blast+
next
  fix cached
  assume hit: "\<not> is_list_path (pathname request)
            \<and> toUpperCase (http_method request) \<noteq> ''POST''
            \<and> caches_default host (url request) = Some cached"
  then have "fetch host request env =
     (Inr (fetch_cached ao cached), [Cache_match (url request)])"
    using fetch_hit [of request host cached env] assms(2) by simp
  then have r: "r = fetch_cached ao cached" and evs: "evs = [Cache_match (url request)]"
    using assms(1) by simp_all
  show "evs = [Cache_match (url request)]" by (rule evs)
  show "status r = status cached" and "body r = body cached"
    and "headers_get (headers r) ''Vary'' = Some ''Origin''"
    and "headers_get (headers r) ''Access-Control-Allow-Origin''
                = (if ao = [] then headers_get (headers cached) ''Access-Control-Allow-Origin''
                   else Some ao)"
    using fetch_cached_props [of ao cached] r by simp_all
next
  assume "ao \<noteq> []"
  then show "\<exists>origins. ALLOWED_ORIGINS env = Some origins
             \<and> ao \<in> set (js_split CHR '','' origins)
             \<and> (Origin request = Some ao \<or> ao = ''*'')"
    using fetch_allowedOrigin_matches [of env request] assms(2) by simp
qed

theorem cors_applied_at_serve_time_witness:
  "fetch ex_host (ex_request ''GET'' ''/myarchive/5/3/2.mvt'') ex_env =
       (Inr \<lparr> status = 200,
              headers = [(''Content-Type'', ''application/x-protobuf''),
                         (''Cache-Control'', ''public, max-age=86400''),
                         (''Access-Control-Allow-Origin'', ''https://a.example''),
                         (''Vary'', ''Origin'')],
              body = BodyBuffer [26, 2, 120, 2] \<rparr>,
        [Cache_match ''https://tiles.example/myarchive/5/3/2.mvt'',
         PMTiles_getHeader ''myarchive'', PMTiles_getZxy ''myarchive'' 5 3 2,
         Cache_put ''https://tiles.example/myarchive/5/3/2.mvt''
           \<lparr> status = 200,
             headers = [(''Content-Type'', ''application/x-protobuf''),
                        (''Cache-Control'', ''public, max-age=86400'')],
             body = BodyBuffer [26, 2, 120, 2] \<rparr>])
   \<and> fetch_allowedOrigin ex_env (ex_request ''GET'' ''/myarchive/5/3/2.mvt'')
       = ''https://a.example''
   \<and> is_list_path ''/myarchive/5/3/2.mvt'' = False
   \<and> toUpperCase ''GET'' \<noteq> ''POST''
   \<and> caches_default ex_cached_host ''https://tiles.example/myarchive/5/3/2.mvt''
       = Some \<lparr> status = 200,
                headers = [(''Content-Type'', ''application/x-protobuf''),
                           (''Cache-Control'', ''public, max-age=86400'')],
                body = BodyBuffer [26, 2, 120, 2] \<rparr>
   \<and> fetch ex_cached_host (ex_request ''GET'' ''/myarchive/5/3/2.mvt'') ex_env =
       (Inr \<lparr> status = 200,
              headers = [(''Content-Type'', ''application/x-protobuf''),
                         (''Cache-Control'', ''public, max-age=86400''),
                         (''Access-Control-Allow-Origin'', ''https://a.example''),
                         (''Vary'', ''Origin'')],
              body = BodyBuffer [26, 2, 120, 2] \<rparr>,
        [Cache_match ''https://tiles.example/myarchive/5/3/2.mvt''])"
proof -
  let ?req = "ex_request ''GET'' ''/myarchive/5/3/2.mvt''"
  let ?stored = "\<lparr> status = 200,
             headers = [(''Content-Type'', ''application/x-protobuf''),
                        (''Cache-Control'', ''public, max-age=86400'')],
             body = BodyBuffer [26, 2, 120, 2] \<rparr>"
  let ?served = "\<lparr> status = 200,
              headers = [(''Content-Type'', ''application/x-protobuf''),
                         (''Cache-Control'', ''public, max-age=86400''),
                         (''Access-Control-Allow-Origin'', ''https://a.example''),
                         (''Vary'', ''Origin'')],
              body = BodyBuffer [26, 2, 120, 2] \<rparr>"
  have miss: "fetch ex_host ?req ex_env =
       (Inr ?served,
        [Cache_match ''https://tiles.example/myarchive/5/3/2.mvt'',
         PMTiles_getHeader ''myarchive'', PMTiles_getZxy ''myarchive'' 5 3 2,
         Cache_put ''https://tiles.example/myarchive/5/3/2.mvt'' ?stored])"
    by (simp add: ex_defs fetch_defs)
  have ao: "''https://a.example'' = fetch_allowedOrigin ex_env ?req"
    by (simp add: ex_defs fetch_defs)
  have hit: "fetch ex_cached_host ?req ex_env =
       (Inr ?served, [Cache_match ''https://tiles.example/myarchive/5/3/2.mvt''])"
    by (simp add: ex_defs fetch_defs)
  have route: "is_list_path ''/myarchive/5/3/2.mvt'' = False"
    "toUpperCase ''GET'' \<noteq> ''POST''"
    by (simp_all add: fetch_defs)
  have cached: "caches_default ex_cached_host ''https://tiles.example/myarchive/5/3/2.mvt''
       = Some ?stored"
    by (simp add: ex_defs)
  have "headers_get (headers ?stored) ''Access-Control-Allow-Origin'' = None
      \<and> headers_get (headers ?served) ''Vary'' = Some ''Origin''"
    using cors_applied_at_serve_time [OF miss ao] by simp
  moreover have "headers_get (headers ?served) ''Access-Control-Allow-Origin''
      = Some ''https://a.example''"
    using cors_applied_at_serve_time [OF hit ao] route cached
    by (simp add: ex_request_def)
  ultimately show ?thesis
    using miss ao hit route cached by simp
qed

text \<open>
  Not every fresh response has the headers: a GET for a path that \<open>tile_path\<close> does not
  accept misses the cache and gets the 404 "Invalid URL" without \<open>Vary\<close> and without
  \<open>Access-Control-Allow-Origin\<close>, although the request's origin is allowed.
\<close>

theorem cors_applied_at_serve_time_counterexample:
  "caches_default ex_host ''https://tiles.example/nothing/here'' = None
   \<and> fetch ex_host (ex_request ''GET'' ''/nothing/here'') ex_env =
       (Inr \<lparr> status = 404,
              headers = [(''Content-Type'', ''text/plain;charset=UTF-8'')],
              body = BodyString ''Invalid URL'' \<rparr>,
        [Cache_match ''https://tiles.example/nothing/here''])
   \<and> headers_get [(''Content-Type'', ''text/plain;charset=UTF-8'')] ''Vary'' = None
   \<and> fetch_allowedOrigin ex_env (ex_request ''GET'' ''/nothing/here'') = ''https://a.example''
   \<and> headers_get [(''Content-Type'', ''text/plain;charset=UTF-8'')]
         ''Access-Control-Allow-Origin'' = None"
  by (simp add: ex_defs fetch_defs)

end
